theory Spec2Isabelle
  imports Complex_Main "HOL-Library.AList"
begin

section \<open>Python strings and lists\<close>

text \<open>
  The string methods the tools call, on \<open>string\<close> (a list of characters).
  \<^verbatim>\<open>s.split('\n')\<close>: the pieces of \<open>s\<close> between newlines; never the empty list.
\<close>

fun py_split :: "char \<Rightarrow> string \<Rightarrow> string list" where
  "py_split sep [] = [[]]"
| "py_split sep (c # s) =
     (if c = sep then [] # py_split sep s
      else (case py_split sep s of
              piece # pieces \<Rightarrow> (c # piece) # pieces
            | [] \<Rightarrow> [[c]]))"

text \<open>\<^verbatim>\<open>sep.join(xs)\<close>.\<close>

fun py_join :: "string \<Rightarrow> string list \<Rightarrow> string" where
  "py_join sep [] = []"
| "py_join sep [x] = x"
| "py_join sep (x # y # ys) = x @ sep @ py_join sep (y # ys)"

text \<open>
  \<^verbatim>\<open>s.count(sub)\<close>: the number of occurrences of \<open>sub\<close> in \<open>s\<close> that do not overlap,
  found from the left; for the empty \<open>sub\<close>, \<^verbatim>\<open>len(s) + 1\<close>.
\<close>

function count_from :: "string \<Rightarrow> string \<Rightarrow> nat" where
  "count_from sub s =
     (if sub = [] \<or> length s < length sub then 0
      else if take (length sub) s = sub then Suc (count_from sub (drop (length sub) s))
      else count_from sub (tl s))"
  by pat_completeness auto
termination
  by (relation "measure (\<lambda>(sub, s). length s)") (auto simp: neq_Nil_conv)

definition py_count :: "string \<Rightarrow> string \<Rightarrow> nat" where
  "py_count s sub = (if sub = [] then length s + 1 else count_from sub s)"

text \<open>
  \<^verbatim>\<open>s.replace(old, new)\<close>: every occurrence that \<^verbatim>\<open>count\<close> finds is replaced; the empty
  \<open>old\<close> matches before every character and at the end.
\<close>

function replace_from :: "string \<Rightarrow> string \<Rightarrow> string \<Rightarrow> string" where
  "replace_from old new s =
     (if old = [] \<or> length s < length old then s
      else if take (length old) s = old then new @ replace_from old new (drop (length old) s)
      else hd s # replace_from old new (tl s))"
  by pat_completeness auto
termination
  by (relation "measure (\<lambda>(old, new, s). length s)") (auto simp: neq_Nil_conv)

definition py_replace :: "string \<Rightarrow> string \<Rightarrow> string \<Rightarrow> string" where
  "py_replace s old new =
     (if old = [] then new @ concat (map (\<lambda>c. c # new) s) else replace_from old new s)"

text \<open>\<^verbatim>\<open>sub in s\<close>: \<open>sub\<close> is a contiguous part of \<open>s\<close>.\<close>

fun py_in :: "string \<Rightarrow> string \<Rightarrow> bool" where
  "py_in sub [] = (sub = [])"
| "py_in sub (c # s) = (take (length sub) (c # s) = sub \<or> py_in sub s)"

text \<open>\<^verbatim>\<open>s.startswith(prefix)\<close>.\<close>

definition startswith :: "string \<Rightarrow> string \<Rightarrow> bool" where
  "startswith s pre = (take (length pre) s = pre)"

text \<open>\<^verbatim>\<open>str(n)\<close> of an integer, in decimal.\<close>

function str_nat :: "nat \<Rightarrow> string" where
  "str_nat n =
     (if n < 10 then [''0123456789'' ! n]
      else str_nat (n div 10) @ [''0123456789'' ! (n mod 10)])"
  by pat_completeness auto
termination
  by (relation "measure (\<lambda>n. n)") auto

definition py_str :: "int \<Rightarrow> string" where
  "py_str i = (if i < 0 then CHR ''-'' # str_nat (nat (- i)) else str_nat (nat i))"

text \<open>\<^verbatim>\<open>str(xs)\<close> of a list of integers: \<^verbatim>\<open>[1, 3]\<close>.\<close>

definition py_str_list :: "int list \<Rightarrow> string" where
  "py_str_list xs = ''['' @ py_join '', '' (map py_str xs) @ '']''"

text \<open>The format \<^verbatim>\<open>{n:6}\<close> of an f-string: \<open>n\<close> in decimal, right-aligned in six columns.\<close>

definition format_6 :: "int \<Rightarrow> string" where
  "format_6 n = replicate (6 - length (py_str n)) CHR '' '' @ py_str n"

text \<open>
  \<^verbatim>\<open>xs[i:j]\<close> for \<open>0 \<le> i\<close> and \<open>0 \<le> j\<close>, and \<^verbatim>\<open>enumerate(xs)\<close>.
\<close>

definition slice :: "'a list \<Rightarrow> nat \<Rightarrow> nat \<Rightarrow> 'a list" where
  "slice xs i j = drop i (take j xs)"

definition py_enumerate :: "'a list \<Rightarrow> (int \<times> 'a) list" where
  "py_enumerate xs = zip (map int [0..<length xs]) xs"

section \<open>Tool results\<close>

text \<open>
  \<^verbatim>\<open>class ToolResult\<close> of \<^verbatim>\<open>computer_use_api.py\<close>: four optional strings. Python's
  \<^verbatim>\<open>None\<close> is \<open>None\<close>; a string \<open>s\<close> is \<open>Some s\<close>.
\<close>

record ToolResult =
  "output" :: "string option"
  error :: "string option"
  base64_image :: "string option"
  system :: "string option"

text \<open>
  Python truthiness of an optional string, as tested by \<^verbatim>\<open>if result.error:\<close> and by
  \<^verbatim>\<open>__bool__\<close>: \<^verbatim>\<open>None\<close> and the empty string are false, every other string is true.
\<close>

definition truthy :: "string option \<Rightarrow> bool" where
  "truthy x = (case x of None \<Rightarrow> False | Some s \<Rightarrow> s \<noteq> [])"

text \<open>\<^verbatim>\<open>ToolResult.__bool__\<close>: \<^verbatim>\<open>any([output, error, base64_image, system])\<close>.\<close>

definition bool_ToolResult :: "ToolResult \<Rightarrow> bool" where
  "bool_ToolResult r =
     (truthy (output r) \<or> truthy (error r) \<or> truthy (base64_image r) \<or> truthy (system r))"

text \<open>
  What a Python call can do: return a value, or raise an \<^verbatim>\<open>Exception\<close> \<open>e\<close>, recorded by
  its message \<^verbatim>\<open>str(e)\<close>. These are the exceptions that \<^verbatim>\<open>except Exception\<close> catches;
  the signals that derive from \<^verbatim>\<open>BaseException\<close> only (\<^verbatim>\<open>KeyboardInterrupt\<close>,
  \<^verbatim>\<open>SystemExit\<close>, a cancelled task) end the program from outside and are not modelled.
\<close>

datatype 'a outcome = Returns 'a | Raises string

section \<open>Bytes and text\<close>

text \<open>
  A Python \<^verbatim>\<open>str\<close> is held as the bytes of its UTF-8 encoding, and \<^verbatim>\<open>bytes\<close> as they
  are: both are of type \<open>string\<close>. \<^verbatim>\<open>bytes.decode()\<close> is the strict UTF-8 decoder: it
  gives the text of a well-formed byte sequence (no overlong form, no surrogate, nothing
  above U+10FFFF) and raises \<^verbatim>\<open>UnicodeDecodeError\<close> on any other. The table is that of
  the UTF-8 standard, by the first byte of each character.
\<close>

definition continuation :: "nat \<Rightarrow> bool" where
  "continuation b = (0x80 \<le> b \<and> b \<le> 0xBF)"

fun utf8_valid :: "nat list \<Rightarrow> bool" where
  "utf8_valid [] = True"
| "utf8_valid (b # bs) =
     (if b < 0x80 then utf8_valid bs
      else if 0xC2 \<le> b \<and> b \<le> 0xDF then
        (case bs of
           c1 # r \<Rightarrow> continuation c1 \<and> utf8_valid r
         | _ \<Rightarrow> False)
      else if 0xE0 \<le> b \<and> b \<le> 0xEF then
        (case bs of
           c1 # c2 # r \<Rightarrow>
             (if b = 0xE0 then 0xA0 \<le> c1 \<and> c1 \<le> 0xBF
              else if b = 0xED then 0x80 \<le> c1 \<and> c1 \<le> 0x9F
              else continuation c1) \<and>
             continuation c2 \<and> utf8_valid r
         | _ \<Rightarrow> False)
      else if 0xF0 \<le> b \<and> b \<le> 0xF4 then
        (case bs of
           c1 # c2 # c3 # r \<Rightarrow>
             (if b = 0xF0 then 0x90 \<le> c1 \<and> c1 \<le> 0xBF
              else if b = 0xF4 then 0x80 \<le> c1 \<and> c1 \<le> 0x8F
              else continuation c1) \<and>
             continuation c2 \<and> continuation c3 \<and> utf8_valid r
         | _ \<Rightarrow> False)
      else False)"

text \<open>
  Of the message of the \<^verbatim>\<open>UnicodeDecodeError\<close> the model keeps the beginning; Python
  goes on with the byte, its position and the reason.
\<close>

definition decode_utf8 :: "string \<Rightarrow> string outcome" where
  "decode_utf8 bs =
     (if utf8_valid (map of_char bs) then Returns bs
      else Raises ([CHR 0x27] @ ''utf-8'' @ [CHR 0x27] @ '' codec can'' @ [CHR 0x27] @
                   ''t decode byte''))"

text \<open>
  Encoding as UTF-8 gives a text's bytes. A \<^verbatim>\<open>str\<close> with a lone surrogate does not
  encode (\<^verbatim>\<open>UnicodeEncodeError\<close>); the strings that are not well-formed UTF-8 stand for
  such texts.
\<close>

definition encode_utf8 :: "string \<Rightarrow> string outcome" where
  "encode_utf8 s =
     (if utf8_valid (map of_char s) then Returns s
      else Raises ([CHR 0x27] @ ''utf-8'' @ [CHR 0x27] @ '' codec can'' @ [CHR 0x27] @
                   ''t encode character''))"

text \<open>
  A file opened in text mode with \<^verbatim>\<open>newline=None\<close>, as \<^verbatim>\<open>Path.read_text\<close> and
  \<^verbatim>\<open>Path.write_text\<close> open it. On reading, the line endings CR LF and CR become LF
  (universal newlines). On writing, every LF becomes \<^verbatim>\<open>os.linesep\<close>.
\<close>

fun universal_newlines :: "string \<Rightarrow> string" where
  "universal_newlines [] = []"
| "universal_newlines [c] = (if c = CHR 0x0D then [CHR 0x0A] else [c])"
| "universal_newlines (c # d # s) =
     (if c = CHR 0x0D \<and> d = CHR 0x0A then CHR 0x0A # universal_newlines s
      else if c = CHR 0x0D then CHR 0x0A # universal_newlines (d # s)
      else c # universal_newlines (d # s))"

definition write_newlines :: "string \<Rightarrow> string \<Rightarrow> string" where
  "write_newlines linesep s = concat (map (\<lambda>c. if c = CHR 0x0A then linesep else [c]) s)"

section \<open>Command tool\<close>





section \<open>File tool\<close>

subsection \<open>The file system\<close>

text \<open>
  A \<^verbatim>\<open>pathlib.Path\<close> is the list of its parts, the anchor (the drive, or the root)
  first. The file system lists the paths that exist, each a directory or a file with the
  bytes it holds.
\<close>

type_synonym path = "string list"

datatype node = File string | Dir

type_synonym filesystem = "(path \<times> node) list"

definition path_exists :: "filesystem \<Rightarrow> path \<Rightarrow> bool" where
  "path_exists fs p = (map_of fs p \<noteq> None)"

definition is_dir :: "filesystem \<Rightarrow> path \<Rightarrow> bool" where
  "is_dir fs p = (map_of fs p = Some Dir)"

definition parent :: "path \<Rightarrow> path" where
  "parent p = (if length p \<le> 1 then p else butlast p)"

definition path_name :: "path \<Rightarrow> string" where
  "path_name p = (if length p \<le> 1 then [] else last p)"

text \<open>
  What the program takes from the platform it runs on: \<^verbatim>\<open>os.linesep\<close>, the separator of
  the parts in \<^verbatim>\<open>str(path)\<close>, and the codec of the locale, which \<^verbatim>\<open>Path.read_text()\<close>
  and \<^verbatim>\<open>Path.write_text(data)\<close> use when no encoding is given: from bytes to text or a
  \<^verbatim>\<open>UnicodeDecodeError\<close>, from text to bytes or a \<^verbatim>\<open>UnicodeEncodeError\<close>.
\<close>

record platform =
  os_linesep :: string
  os_sep :: string
  decode_file :: "string \<Rightarrow> string outcome"
  encode_file :: "string \<Rightarrow> string outcome"

text \<open>\<^verbatim>\<open>str(path)\<close>, as in every message: the anchor, then the parts joined by the separator.\<close>

definition path_str :: "platform \<Rightarrow> path \<Rightarrow> string" where
  "path_str pf p =
     (case p of [] \<Rightarrow> ''.'' | anchor # parts \<Rightarrow> anchor @ py_join (os_sep pf) parts)"

text \<open>\<^verbatim>\<open>path.iterdir()\<close>: the entries of a directory.\<close>

definition iterdir :: "filesystem \<Rightarrow> path \<Rightarrow> path list" where
  "iterdir fs p = filter (\<lambda>q. q \<noteq> p \<and> parent q = p) (map fst fs)"

text \<open>
  \<^verbatim>\<open>path.read_text()\<close>: the bytes of a file, decoded, with universal newlines.
\<close>

definition read_text :: "platform \<Rightarrow> filesystem \<Rightarrow> path \<Rightarrow> string outcome" where
  "read_text pf fs p =
     (case map_of fs p of
        Some (File bytes) \<Rightarrow>
          (case decode_file pf bytes of
             Raises e \<Rightarrow> Raises e
           | Returns s \<Rightarrow> Returns (universal_newlines s))
      | Some Dir \<Rightarrow> Raises (''[Errno 13] Permission denied: '' @ path_str pf p)
      | None \<Rightarrow> Raises (''[Errno 2] No such file or directory: '' @ path_str pf p))"

text \<open>
  \<^verbatim>\<open>path.write_text(data)\<close>, with the file system it leaves. Opening for writing needs
  a file, or a directory to make a new file in, and empties the file. Then the text is
  written: its newlines translated, and encoded. When the encoding raises, the file stays
  empty.
\<close>

definition write_text ::
  "platform \<Rightarrow> filesystem \<Rightarrow> path \<Rightarrow> string \<Rightarrow> unit outcome \<times> filesystem" where
  "write_text pf fs p s =
     (if map_of fs p = Some Dir then
        (Raises (''[Errno 13] Permission denied: '' @ path_str pf p), fs)
      else if map_of fs p = None \<and> \<not> is_dir fs (parent p) then
        (Raises (''[Errno 2] No such file or directory: '' @ path_str pf p), fs)
      else case encode_file pf (write_newlines (os_linesep pf) s) of
        Raises e \<Rightarrow> (Raises e, AList.update p (File []) fs)
      | Returns bytes \<Rightarrow> (Returns (), AList.update p (File bytes) fs))"


subsection \<open>The editing commands\<close>

text \<open>
  The state the file tool works on: the file system, and the tool's \<^verbatim>\<open>_file_history\<close>,
  a dictionary from paths to lists of saved contents (the last element is the newest).
\<close>

record file_state =
  files :: filesystem
  file_history :: "path \<rightharpoonup> string list"

text \<open>\<^verbatim>\<open>ToolResult(output=s)\<close> and \<^verbatim>\<open>ToolResult(error=s)\<close>.\<close>

definition output_result :: "string \<Rightarrow> ToolResult" where
  "output_result s = \<lparr>output = Some s, error = None, base64_image = None, system = None\<rparr>"

definition error_result :: "string \<Rightarrow> ToolResult" where
  "error_result s = \<lparr>output = None, error = Some s, base64_image = None, system = None\<rparr>"

text \<open>
  The loop at the end of \<^verbatim>\<open>FileTool.view\<close>: every line of the text to show, with
  \<^verbatim>\<open>i+1\<close> in front, where \<open>i\<close> counts the lines shown from 0.
\<close>

definition numbered_content :: "string \<Rightarrow> string" where
  "numbered_content file_content =
     concat (map (\<lambda>(i, line). format_6 (i + 1) @ [CHR 0x09] @ line @ [CHR 0x0A])
                 (py_enumerate (py_split CHR 0x0A file_content)))"

text \<open>
  \<^verbatim>\<open>FileTool.view\<close>. \<^verbatim>\<open>if view_range:\<close> holds for a list that is not empty. The
  range is checked and cut out of the content first (a wrong range returns early, here
  \<open>Inl\<close> of the message); what is left is numbered.
\<close>

definition view :: "platform \<Rightarrow> file_state \<Rightarrow> path \<Rightarrow> int list option \<Rightarrow> ToolResult" where
  "view pf st path view_range =
     (if is_dir (files st) path then
        (if view_range \<noteq> None \<and> view_range \<noteq> Some [] then
           error_result
             ''The `view_range` parameter is not allowed when `path` points to a directory.''
         else
           output_result (''Directory listing of '' @ path_str pf path @ [CHR 0x3A, CHR 0x0A] @
             py_join [CHR 0x0A]
               (map (path_str pf)
                  (filter (\<lambda>item. \<not> startswith (path_name item) ''.'')
                     (iterdir (files st) path)))))
      else if \<not> path_exists (files st) path then
        error_result (''The path '' @ path_str pf path @ '' does not exist.'')
      else case read_text pf (files st) path of
        Raises e \<Rightarrow> error_result (''Error reading file '' @ path_str pf path @ '': '' @ e)
      | Returns file_content \<Rightarrow>
          (case
             (case view_range of
                None \<Rightarrow> Inr file_content
              | Some [] \<Rightarrow> Inr file_content
              | Some [start, end] \<Rightarrow>
                  (let lines = py_split CHR 0x0A file_content in
                   if start < 1 \<or> start > int (length lines) then
                     Inl (''Invalid start line '' @ py_str start @
                          '', should be between 1 and '' @ py_str (int (length lines)))
                   else if end \<noteq> - 1 \<and> (end < start \<or> end > int (length lines)) then
                     Inl (''Invalid end line '' @ py_str end @ '', should be between '' @
                          py_str start @ '' and '' @ py_str (int (length lines)) @ '' or -1'')
                   else if end = - 1 then
                     Inr (py_join [CHR 0x0A] (drop (nat (start - 1)) lines))
                   else
                     Inr (py_join [CHR 0x0A] (slice lines (nat (start - 1)) (nat end))))
              | Some _ \<Rightarrow> Inl ''Invalid `view_range`. It should be a list of two integers.'')
           of
             Inl message \<Rightarrow> error_result message
           | Inr file_content \<Rightarrow>
               output_result (''Contents of '' @ path_str pf path @ [CHR 0x3A, CHR 0x0A] @
                 numbered_content file_content)))"


text \<open>
  The backup of \<^verbatim>\<open>str_replace\<close> and \<^verbatim>\<open>insert\<close>:
  \<^verbatim>\<open>if path not in self._file_history: self._file_history[path] = []\<close>, then
  \<^verbatim>\<open>self._file_history[path].append(file_content)\<close>.
\<close>

definition save_backup :: "file_state \<Rightarrow> path \<Rightarrow> string \<Rightarrow> file_state" where
  "save_backup st path file_content =
     st\<lparr>file_history := (file_history st)
          (path \<mapsto> (case file_history st path of None \<Rightarrow> [] | Some h \<Rightarrow> h) @ [file_content])\<rparr>"

text \<open>
  The line numbers in the message of \<^verbatim>\<open>str_replace\<close> for several occurrences:
  \<^verbatim>\<open>[i+1 for i, line in enumerate(file_content.split('\n')) if old_str in line]\<close>.
\<close>

definition occurrence_lines :: "string \<Rightarrow> string \<Rightarrow> int list" where
  "occurrence_lines file_content old_str =
     map (\<lambda>(i, line). i + 1)
         (filter (\<lambda>(i, line). py_in old_str line) (py_enumerate (py_split CHR 0x0A file_content)))"

text \<open>\<^verbatim>\<open>FileTool.str_replace\<close>.\<close>

definition str_replace ::
  "platform \<Rightarrow> file_state \<Rightarrow> path \<Rightarrow> string \<Rightarrow> string \<Rightarrow> ToolResult \<times> file_state" where
  "str_replace pf st path old_str new_str =
     (if \<not> path_exists (files st) path then
        (error_result (''The path '' @ path_str pf path @ '' does not exist.''), st)
      else if is_dir (files st) path then
        (error_result (''The path '' @ path_str pf path @
           '' is a directory and cannot be edited.''), st)
      else case read_text pf (files st) path of
        Raises e \<Rightarrow>
          (error_result (''Error replacing text in '' @ path_str pf path @ '': '' @ e), st)
      | Returns file_content \<Rightarrow>
          (let occurrences = py_count file_content old_str in
           if occurrences = 0 then
             (error_result (''No replacement was performed, old_str `'' @ old_str @
                ''` did not appear verbatim in '' @ path_str pf path @ ''.''), st)
           else if occurrences > 1 then
             (error_result (''Multiple occurrences of old_str `'' @ old_str @
                ''` in lines '' @ py_str_list (occurrence_lines file_content old_str) @
                ''. Please ensure it is unique.''), st)
           else
             (let st1 = save_backup st path file_content;
                  new_content = py_replace file_content old_str new_str
              in case write_text pf (files st1) path new_content of
                   (Raises e, fs') \<Rightarrow>
                     (error_result (''Error replacing text in '' @ path_str pf path @ '': '' @ e),
                      st1\<lparr>files := fs'\<rparr>)
                 | (Returns u, fs') \<Rightarrow>
                     (output_result (''The file '' @ path_str pf path @
                        '' has been edited. Replaced '' @ [CHR 0x27] @ old_str @ [CHR 0x27] @
                        '' with '' @ [CHR 0x27] @ new_str @ [CHR 0x27] @ ''.''),
                      st1\<lparr>files := fs'\<rparr>))))"



section \<open>Tool collection\<close>

text \<open>
  A tool is an object with a \<^verbatim>\<open>name\<close> and an asynchronous \<^verbatim>\<open>__call__(**tool_input)\<close>.
  The call acts on the machine (screen, processes, files, the tool's own fields), a state
  of type \<open>'w\<close> that it takes and gives back; \<open>'i\<close> is the type of input mappings. A call
  with keywords the tool does not accept is a raised \<^verbatim>\<open>TypeError\<close>, one of the outcomes.
\<close>

record ('i, 'w) Tool =
  name :: string
  call :: "'i \<Rightarrow> 'w \<Rightarrow> ToolResult outcome \<times> 'w"

text \<open>
  \<^verbatim>\<open>ToolCollection.__init__\<close>: \<^verbatim>\<open>self.tool_map = {tool.name: tool for tool in tools}\<close>.
  A later tool replaces an earlier one of the same name.
\<close>

definition tool_map :: "('i, 'w) Tool list \<Rightarrow> string \<rightharpoonup> ('i, 'w) Tool" where
  "tool_map tools = map_of (rev (map (\<lambda>tool. (name tool, tool)) tools))"

text \<open>
  \<^verbatim>\<open>ToolCollection.run\<close>. The model gives it the result type of any call, so that
  "never raises" is a property to prove and not a consequence of the type.
\<close>

definition run ::
  "('i, 'w) Tool list \<Rightarrow> string \<Rightarrow> 'i \<Rightarrow> 'w \<Rightarrow> ToolResult outcome \<times> 'w" where
  "run tools nm tool_input w =
     (case tool_map tools nm of
        None \<Rightarrow>
          (Returns \<lparr>output = None, error = Some (''Tool '' @ nm @ '' is not available''),
                    base64_image = None, system = None\<rparr>, w)
      | Some tool \<Rightarrow>
          (case call tool tool_input w of
             (Returns result, w') \<Rightarrow> (Returns result, w')
           | (Raises e, w') \<Rightarrow>
               (Returns \<lparr>output = None,
                         error = Some (''Error executing tool '' @ nm @ '': '' @ e),
                         base64_image = None, system = None\<rparr>, w')))"


section \<open>Messages\<close>

text \<open>
  The content blocks of a model response (\<^verbatim>\<open>BetaMessage.content\<close>): text, or a tool
  invocation with its correlation id, the tool's name and the input mapping.
\<close>

datatype 'i BetaContentBlock =
  BetaTextBlock string
| BetaToolUseBlock string string 'i

text \<open>
  The dictionaries the loop works with: \<^verbatim>\<open>{"type": "text", "text": ...}\<close> and
  \<^verbatim>\<open>{"type": "tool_use", "id": ..., "name": ..., "input": ...}\<close>.
\<close>

datatype 'i block_param =
  TextParam string
| ToolUseParam string string 'i

text \<open>\<^verbatim>\<open>content_block["type"] == "tool_use"\<close>.\<close>

fun is_tool_use :: "'i block_param \<Rightarrow> bool" where
  "is_tool_use (TextParam t) = False"
| "is_tool_use (ToolUseParam i n inp) = True"

text \<open>\<^verbatim>\<open>ComputerUseAPI._response_to_params\<close>.\<close>

fun block_to_param :: "'i BetaContentBlock \<Rightarrow> 'i block_param" where
  "block_to_param (BetaTextBlock t) = TextParam t"
| "block_to_param (BetaToolUseBlock i n inp) = ToolUseParam i n inp"

definition response_to_params :: "'i BetaContentBlock list \<Rightarrow> 'i block_param list" where
  "response_to_params response_content = map block_to_param response_content"

text \<open>
  A tool-result item, \<^verbatim>\<open>{"type": "tool_result", "content": ..., "tool_use_id": ...,
  "is_error": ...}\<close>. Its content is a string (the error text) or a list of text and image
  blocks.
\<close>

record image_source =
  source_type :: string
  media_type :: string
  data :: string

datatype result_block = TextBlock string | ImageBlock image_source

datatype tool_result_content = ContentText string | ContentBlocks "result_block list"

record BetaToolResultBlockParam =
  content :: tool_result_content
  tool_use_id :: string
  is_error :: bool

text \<open>
  \<^verbatim>\<open>f"<system>{result.system}</system>\n{text}"\<close> when \<^verbatim>\<open>result.system\<close> is truthy,
  else the text as it is.
\<close>

definition with_system :: "string option \<Rightarrow> string \<Rightarrow> string" where
  "with_system sys txt =
     (case sys of
        None \<Rightarrow> txt
      | Some s \<Rightarrow> if s \<noteq> [] then ''<system>'' @ s @ ''</system>'' @ [CHR 0x0A] @ txt else txt)"

text \<open>\<^verbatim>\<open>ComputerUseAPI._make_api_tool_result\<close>.\<close>

definition make_api_tool_result :: "ToolResult \<Rightarrow> string \<Rightarrow> BetaToolResultBlockParam" where
  "make_api_tool_result result tool_use_id' =
     (case error result of
        Some (c # cs) \<Rightarrow>
          \<lparr>content = ContentText (with_system (system result) (c # cs)),
           tool_use_id = tool_use_id', is_error = True\<rparr>
      | _ \<Rightarrow>
          \<lparr>content = ContentBlocks
             ((case output result of
                 Some (c # cs) \<Rightarrow> [TextBlock (with_system (system result) (c # cs))]
               | _ \<Rightarrow> []) @
              (case base64_image result of
                 Some (c # cs) \<Rightarrow>
                   [ImageBlock \<lparr>source_type = ''base64'', media_type = ''image/png'',
                                data = c # cs\<rparr>]
               | _ \<Rightarrow> [])),
           tool_use_id = tool_use_id', is_error = False\<rparr>)"

text \<open>A message of the conversation: a role and a list of blocks or of tool results.\<close>

datatype role = User | Assistant

datatype 'i message_content =
  Blocks "'i block_param list"
| ToolResults "BetaToolResultBlockParam list"

record 'i BetaMessageParam =
  role :: role
  message_content :: "'i message_content"

section \<open>Sampling loop\<close>

text \<open>
  The model service is outside the program. One call of it either fails in
  \<^verbatim>\<open>with_raw_response.create\<close> (the request is rejected or does not get through), or
  answers and fails in \<^verbatim>\<open>raw_response.parse()\<close> (the response is malformed), or gives a
  parsed response. The three exception classes of the \<^verbatim>\<open>except\<close> clause carry a message.
\<close>

datatype api_error =
  APIStatusError string
| APIResponseValidationError string
| APIError string

datatype 'i api_outcome =
  CreateRaises api_error
| ParseRaises api_error
| Parses "'i BetaContentBlock list"

text \<open>
  What the loop does that can be seen from outside, in order: a call of the model service
  (with the messages sent) and a call of one of the three callbacks. Of
  \<^verbatim>\<open>api_response_callback(request, response, error)\<close> the error is kept.
\<close>

datatype 'i event =
  ModelCall "'i BetaMessageParam list"
| ApiResponseCallback "api_error option"
| OutputCallback "'i block_param"
| ToolOutputCallback ToolResult string

record ('i, 'w) loop_state =
  messages :: "'i BetaMessageParam list"
  world :: 'w
  trace :: "'i event list"

text \<open>
  The \<^verbatim>\<open>for content_block in response_params\<close> loop: \<open>acc\<close> is
  \<^verbatim>\<open>tool_result_content\<close>. An exception out of \<^verbatim>\<open>self.tools.run\<close> would leave the
  loop (it is not one the \<^verbatim>\<open>except\<close> clause names).
\<close>

fun for_content_blocks ::
  "('i, 'w) Tool list \<Rightarrow> 'i block_param list \<Rightarrow> BetaToolResultBlockParam list \<Rightarrow> 'w \<Rightarrow>
   'i event list \<Rightarrow> (BetaToolResultBlockParam list \<times> 'w \<times> 'i event list) outcome" where
  "for_content_blocks tools [] acc w tr = Returns (acc, w, tr)"
| "for_content_blocks tools (content_block # rest) acc w tr =
     (case content_block of
        TextParam t \<Rightarrow>
          for_content_blocks tools rest acc w (tr @ [OutputCallback content_block])
      | ToolUseParam i n inp \<Rightarrow>
          (case run tools n inp w of
             (Raises e, w') \<Rightarrow> Raises e
           | (Returns result, w') \<Rightarrow>
               for_content_blocks tools rest (acc @ [make_api_tool_result result i]) w'
                 (tr @ [OutputCallback content_block, ToolOutputCallback result i])))"

text \<open>
  One pass through the body of \<^verbatim>\<open>while True\<close> in \<^verbatim>\<open>_sampling_loop\<close>, given what the
  model service does when called: the loop returns (\<open>Return\<close>), or goes round again
  (\<open>Continue\<close>).
\<close>

datatype 's step = Return 's | Continue 's

definition iteration ::
  "('i, 'w) Tool list \<Rightarrow> 'i api_outcome \<Rightarrow> ('i, 'w) loop_state \<Rightarrow>
   ('i, 'w) loop_state step outcome" where
  "iteration tools api st =
     (let called = trace st @ [ModelCall (messages st)] in
      case api of
        CreateRaises e \<Rightarrow>
          Returns (Return (st\<lparr>trace := called @ [ApiResponseCallback (Some e)]\<rparr>))
      | ParseRaises e \<Rightarrow>
          Returns (Return (st\<lparr>trace := called @
            [ApiResponseCallback None, ApiResponseCallback (Some e)]\<rparr>))
      | Parses response_content \<Rightarrow>
          (let response_params = response_to_params response_content;
               msgs = messages st @
                 [\<lparr>role = Assistant, message_content = Blocks response_params\<rparr>]
           in case for_content_blocks tools response_params [] (world st)
                     (called @ [ApiResponseCallback None]) of
                Raises e \<Rightarrow> Raises e
              | Returns (tool_result_content, w', tr') \<Rightarrow>
                  if tool_result_content = [] then
                    Returns (Return \<lparr>messages = msgs, world = w', trace = tr'\<rparr>)
                  else
                    Returns (Continue
                      \<lparr>messages = msgs @
                         [\<lparr>role = User, message_content = ToolResults tool_result_content\<rparr>],
                       world = w', trace = tr'\<rparr>)))"

text \<open>
  \<^verbatim>\<open>ComputerUseAPI._sampling_loop\<close>. The list holds what the model service does at its
  first call, its second call, and so on. The loop may go on for ever; here it stops with
  \<open>None\<close> when it calls the service and the list has run out.
\<close>

fun sampling_loop ::
  "('i, 'w) Tool list \<Rightarrow> 'i api_outcome list \<Rightarrow> ('i, 'w) loop_state \<Rightarrow>
   ('i, 'w) loop_state outcome option" where
  "sampling_loop tools [] st = None"
| "sampling_loop tools (api # apis) st =
     (case iteration tools api st of
        Raises e \<Rightarrow> Some (Raises e)
      | Returns (Return st') \<Rightarrow> Some (Returns st')
      | Returns (Continue st') \<Rightarrow> sampling_loop tools apis st')"

text \<open>\<^verbatim>\<open>ComputerUseAPI.run_conversation\<close>.\<close>

definition run_conversation ::
  "('i, 'w) Tool list \<Rightarrow> 'i api_outcome list \<Rightarrow> 'w \<Rightarrow> string \<Rightarrow>
   ('i, 'w) loop_state outcome option" where
  "run_conversation tools apis w user_message =
     sampling_loop tools apis
       \<lparr>messages = [\<lparr>role = User, message_content = Blocks [TextParam user_message]\<rparr>],
        world = w, trace = []\<rparr>"

text \<open>The number of calls of the model service in a trace.\<close>

fun is_model_call :: "'i event \<Rightarrow> bool" where
  "is_model_call (ModelCall ms) = True"
| "is_model_call _ = False"

definition model_calls :: "'i event list \<Rightarrow> nat" where
  "model_calls tr = length (filter is_model_call tr)"

section \<open>Specification-side definitions for the loop\<close>

text \<open>
  The definitions of this section and the next follow the wording of the specification,
  not a function of the source: the theorems on the loop and on the file tool compare the
  code with them.
\<close>

text \<open>
  The tool invocations of a decomposed response, in the order they stand in it: the
  correlation id, the tool's name and the input of each.
\<close>

fun tool_uses :: "'i block_param list \<Rightarrow> (string \<times> string \<times> 'i) list" where
  "tool_uses [] = []"
| "tool_uses (TextParam t # bs) = tool_uses bs"
| "tool_uses (ToolUseParam i n inp # bs) = (i, n, inp) # tool_uses bs"

text \<open>
  The invocations dispatched one after the other, each on the machine as the one before
  left it: the list of their results, in the order of the invocations.
\<close>

fun run_in_order :: "('i, 'w) Tool list \<Rightarrow> (string \<times> string \<times> 'i) list \<Rightarrow> 'w \<Rightarrow> ToolResult list" where
  "run_in_order tools [] w = []"
| "run_in_order tools ((i, n, inp) # us) w =
     (case run tools n inp w of
        (Returns r, w') \<Rightarrow> r # run_in_order tools us w'
      | (Raises e, w') \<Rightarrow> [])"

text \<open>
  The sequence the specification asks for: the result of every invocation, converted
  with the correlation id of that invocation, in the order of the invocations.
\<close>

definition converted_results :: "('i, 'w) Tool list \<Rightarrow> 'i block_param list \<Rightarrow> 'w \<Rightarrow> BetaToolResultBlockParam list" where
  "converted_results tools bs w =
     map (\<lambda>(r, i). make_api_tool_result r i) (zip (run_in_order tools (tool_uses bs) w) (map fst (tool_uses bs)))"

text \<open>The state a pass through the loop body ends in, whether the loop returns or goes on.\<close>

fun state_of :: "'s step \<Rightarrow> 's" where
  "state_of (Return s) = s"
| "state_of (Continue s) = s"

section \<open>Specification-side definitions for the file tool\<close>

text \<open>
  How many lines \<^verbatim>\<open>view\<close> shows for a range that passed its checks: from line \<open>start\<close>
  to line \<open>end\<close>, or to the last line when \<open>end\<close> is \<open>-1\<close>.
\<close>

definition shown_lines :: "string list \<Rightarrow> int \<Rightarrow> int \<Rightarrow> nat" where
  "shown_lines lines start end = (if end = - 1 then length lines else nat end) - nat (start - 1)"


section \<open>Example data\<close>

text \<open>
  Two tools on a machine that counts the screenshots taken: one returns a screenshot, the
  other raises. And a conversation that has just begun.
\<close>

definition example_tools :: "(nat, nat) Tool list" where
  "example_tools =
     [\<lparr>name = ''computer'',
       call = (\<lambda>i w. (Returns \<lparr>output = Some ''Screenshot taken'', error = None,
                                 base64_image = Some ''AAAA'', system = None\<rparr>, Suc w))\<rparr>,
      \<lparr>name = ''command'', call = (\<lambda>i w. (Raises ''boom'', w))\<rparr>]"

definition example_state :: "(nat, nat) loop_state" where
  "example_state =
     \<lparr>messages = [\<lparr>role = User, message_content = Blocks [TextParam ''take a screenshot'']\<rparr>],
      world = 0, trace = []\<rparr>"

text \<open>
  Two platforms whose locale codec is UTF-8: Windows (in Python's UTF-8 mode) and a POSIX
  system. On each, a file system with one file in the top directory, and no edit so far.
\<close>

definition windows_platform :: platform where
  "windows_platform =
     \<lparr>os_linesep = [CHR 0x0D, CHR 0x0A], os_sep = [CHR 0x5C],
      decode_file = decode_utf8, encode_file = encode_utf8\<rparr>"


definition example_path :: path where
  "example_path = [''C:'' @ [CHR 0x5C], ''f.txt'']"

definition example_files :: "string \<Rightarrow> file_state" where
  "example_files bytes =
     \<lparr>files = [([''C:'' @ [CHR 0x5C]], Dir), (example_path, File bytes)],
      file_history = Map.empty\<rparr>"






section \<open>Properties of the tool collection\<close>

lemma run_returns: "\<exists>r w'. run tools nm tool_input w = (Returns r, w')"
  by (simp add: run_def split: option.split prod.split outcome.split)

text \<open>
  Claim C1. For every tool name and input mapping, dispatch returns a \<open>ToolResult\<close> and
  never raises. If no tool is registered under the name, the result's error is
  "Tool <name> is not available". If the tool found under the name raises an exception
  with message \<open>e\<close>, dispatch catches it and the result's error is
  "Error executing tool <name>: <e>". A tool that returns has its result passed on.
\<close>

theorem run_never_raises:
  "(\<exists>r w'. run tools nm tool_input w = (Returns r, w')) \<and>
   (tool_map tools nm = None \<longrightarrow>
      run tools nm tool_input w =
        (Returns \<lparr>output = None, error = Some (''Tool '' @ nm @ '' is not available''),
                  base64_image = None, system = None\<rparr>, w)) \<and>
   (\<forall>tool e w'. tool_map tools nm = Some tool \<and> call tool tool_input w = (Raises e, w') \<longrightarrow>
      run tools nm tool_input w =
        (Returns \<lparr>output = None,
                  error = Some (''Error executing tool '' @ nm @ '': '' @ e),
                  base64_image = None, system = None\<rparr>, w')) \<and>
   (\<forall>tool r w'. tool_map tools nm = Some tool \<and> call tool tool_input w = (Returns r, w') \<longrightarrow>
      run tools nm tool_input w = (Returns r, w'))"
  by (simp add: run_def split: option.split prod.split outcome.split)

theorem run_never_raises_witness:
  "run [\<lparr>name = ''command'', call = (\<lambda>(i::nat) (w::nat). (Raises ''boom'', Suc w))\<rparr>]
       ''command'' 0 0 =
     (Returns \<lparr>output = None, error = Some ''Error executing tool command: boom'',
               base64_image = None, system = None\<rparr>, 1) \<and>
   run [\<lparr>name = ''command'', call = (\<lambda>(i::nat) (w::nat). (Raises ''boom'', Suc w))\<rparr>]
       ''bash'' 0 0 =
     (Returns \<lparr>output = None, error = Some ''Tool bash is not available'',
               base64_image = None, system = None\<rparr>, 0)"
  using
    run_never_raises [of "[\<lparr>name = ''command'', call = (\<lambda>(i::nat) (w::nat). (Raises ''boom'', Suc w))\<rparr>]"
      "''command''" 0 0]
    run_never_raises [of "[\<lparr>name = ''command'', call = (\<lambda>(i::nat) (w::nat). (Raises ''boom'', Suc w))\<rparr>]"
      "''bash''" 0 0]
  by (simp add: tool_map_def)

section \<open>Properties of the sampling loop\<close>


lemma length_run_in_order: "length (run_in_order tools us w) = length us"
proof (induction us arbitrary: w)
  case Nil
  show ?case by simp
next
  case (Cons u us)
  obtain i n inp where u: "u = (i, n, inp)" by (cases u) auto
  obtain r w' where "run tools n inp w = (Returns r, w')"
    using run_returns [of tools n inp w] by blast
  then show ?case using Cons.IH [of w'] by (simp add: u)
qed

lemma for_content_blocks_returns:
  "\<exists>w' ev. for_content_blocks tools bs acc w tr =
       Returns (acc @ converted_results tools bs w, w', tr @ ev) \<and> model_calls ev = 0"
proof (induction bs arbitrary: acc w tr)
  case Nil
  show ?case by (simp add: converted_results_def model_calls_def)
next
  case (Cons b bs)
  show ?case
  proof (cases b)
    case (TextParam t)
    obtain w' ev where
      "for_content_blocks tools bs acc w (tr @ [OutputCallback b]) =
         Returns (acc @ converted_results tools bs w, w', (tr @ [OutputCallback b]) @ ev)"
      "model_calls ev = 0"
      using Cons.IH [of acc w "tr @ [OutputCallback b]"] by blast
    then have "for_content_blocks tools (b # bs) acc w tr =
         Returns (acc @ converted_results tools (b # bs) w, w', tr @ (OutputCallback b # ev)) \<and>
         model_calls (OutputCallback b # ev) = 0"
      by (simp add: TextParam converted_results_def model_calls_def)
    then show ?thesis by blast
  next
    case (ToolUseParam i n inp)
    obtain r w1 where r: "run tools n inp w = (Returns r, w1)"
      using run_returns [of tools n inp w] by blast
    obtain w' ev where
      "for_content_blocks tools bs (acc @ [make_api_tool_result r i]) w1
           (tr @ [OutputCallback b, ToolOutputCallback r i]) =
         Returns ((acc @ [make_api_tool_result r i]) @ converted_results tools bs w1, w',
                  (tr @ [OutputCallback b, ToolOutputCallback r i]) @ ev)"
      "model_calls ev = 0"
      using Cons.IH [of "acc @ [make_api_tool_result r i]" w1
          "tr @ [OutputCallback b, ToolOutputCallback r i]"] by blast
    then have "for_content_blocks tools (b # bs) acc w tr =
         Returns (acc @ converted_results tools (b # bs) w, w',
                  tr @ (OutputCallback b # ToolOutputCallback r i # ev)) \<and>
         model_calls (OutputCallback b # ToolOutputCallback r i # ev) = 0"
      by (simp add: ToolUseParam r converted_results_def model_calls_def)
    then show ?thesis by blast
  qed
qed

lemma length_converted_results:
  "length (converted_results tools bs w) = length (tool_uses bs)"
  by (simp add: converted_results_def length_run_in_order)

lemma converted_results_Nil:
  "converted_results tools bs w = [] \<longleftrightarrow> tool_uses bs = []"
  using length_converted_results [of tools bs w] by (metis length_0_conv)

lemma map_tool_use_id_converted:
  "map tool_use_id (converted_results tools bs w) = map fst (tool_uses bs)"
proof -
  have "\<And>rs is. length rs = length is \<Longrightarrow>
      map tool_use_id (map (\<lambda>(r, i). make_api_tool_result r i) (zip rs is)) = is"
  proof -
    fix rs :: "ToolResult list" and "is" :: "string list"
    assume "length rs = length is"
    then show "map tool_use_id (map (\<lambda>(r, i). make_api_tool_result r i) (zip rs is)) = is"
      by (induction rs "is" rule: list_induct2)
         (auto simp: make_api_tool_result_def split: option.split list.split)
  qed
  then show ?thesis
    by (simp add: converted_results_def length_run_in_order)
qed

lemma model_calls_append: "model_calls (xs @ ys) = model_calls xs + model_calls ys"
  by (simp add: model_calls_def)

lemma iteration_Parses:
  "\<exists>w' ev. model_calls ev = 0 \<and>
     iteration tools (Parses c) st =
       (if tool_uses (response_to_params c) = [] then
          Returns (Return \<lparr>messages = messages st @
                      [\<lparr>role = Assistant, message_content = Blocks (response_to_params c)\<rparr>],
                    world = w',
                    trace = trace st @ ModelCall (messages st) # ApiResponseCallback None # ev\<rparr>)
        else
          Returns (Continue \<lparr>messages = messages st @
                      [\<lparr>role = Assistant, message_content = Blocks (response_to_params c)\<rparr>,
                       \<lparr>role = User, message_content =
                          ToolResults (converted_results tools (response_to_params c) (world st))\<rparr>],
                    world = w',
                    trace = trace st @ ModelCall (messages st) # ApiResponseCallback None # ev\<rparr>))"
proof -
  obtain w' ev where f:
    "for_content_blocks tools (response_to_params c) [] (world st)
        ((trace st @ [ModelCall (messages st)]) @ [ApiResponseCallback None]) =
       Returns ([] @ converted_results tools (response_to_params c) (world st), w',
                ((trace st @ [ModelCall (messages st)]) @ [ApiResponseCallback None]) @ ev)"
    and ev: "model_calls ev = 0"
    using for_content_blocks_returns [of tools "response_to_params c" "[]" "world st"
        "(trace st @ [ModelCall (messages st)]) @ [ApiResponseCallback None]"] by blast
  have "iteration tools (Parses c) st =
       (if tool_uses (response_to_params c) = [] then
          Returns (Return \<lparr>messages = messages st @
                      [\<lparr>role = Assistant, message_content = Blocks (response_to_params c)\<rparr>],
                    world = w',
                    trace = trace st @ ModelCall (messages st) # ApiResponseCallback None # ev\<rparr>)
        else
          Returns (Continue \<lparr>messages = messages st @
                      [\<lparr>role = Assistant, message_content = Blocks (response_to_params c)\<rparr>,
                       \<lparr>role = User, message_content =
                          ToolResults (converted_results tools (response_to_params c) (world st))\<rparr>],
                    world = w',
                    trace = trace st @ ModelCall (messages st) # ApiResponseCallback None # ev\<rparr>))"
    using f by (simp add: iteration_def Let_def converted_results_Nil)
  with ev show ?thesis by blast
qed

lemma iteration_trace:
  assumes "iteration tools api st = Returns s"
  shows "\<exists>tr. trace (state_of s) = trace st @ ModelCall (messages st) # tr"
proof (cases api)
  case (CreateRaises e)
  with assms show ?thesis by (auto simp: iteration_def)
next
  case (ParseRaises e)
  with assms show ?thesis by (auto simp: iteration_def)
next
  case (Parses c)
  obtain w' ev where
    "iteration tools (Parses c) st =
       (if tool_uses (response_to_params c) = [] then
          Returns (Return \<lparr>messages = messages st @
                      [\<lparr>role = Assistant, message_content = Blocks (response_to_params c)\<rparr>],
                    world = w',
                    trace = trace st @ ModelCall (messages st) # ApiResponseCallback None # ev\<rparr>)
        else
          Returns (Continue \<lparr>messages = messages st @
                      [\<lparr>role = Assistant, message_content = Blocks (response_to_params c)\<rparr>,
                       \<lparr>role = User, message_content =
                          ToolResults (converted_results tools (response_to_params c) (world st))\<rparr>],
                    world = w',
                    trace = trace st @ ModelCall (messages st) # ApiResponseCallback None # ev\<rparr>))"
    using iteration_Parses [of tools c st] by blast
  with assms Parses show ?thesis by (auto split: if_splits)
qed

lemma sampling_loop_trace_grows:
  "sampling_loop tools apis st = Some (Returns st2) \<Longrightarrow> \<exists>tr. trace st2 = trace st @ tr"
proof (induction apis arbitrary: st)
  case Nil
  then show ?case by simp
next
  case (Cons api apis)
  show ?case
  proof (cases "iteration tools api st")
    case (Raises e)
    with Cons.prems show ?thesis by simp
  next
    case (Returns s)
    then obtain tr where tr: "trace (state_of s) = trace st @ ModelCall (messages st) # tr"
      using iteration_trace by blast
    show ?thesis
    proof (cases s)
      case (Return st')
      with Cons.prems Returns tr show ?thesis by auto
    next
      case (Continue st')
      with Cons.prems Returns have "sampling_loop tools apis st' = Some (Returns st2)" by simp
      then obtain tr' where "trace st2 = trace st' @ tr'" using Cons.IH by blast
      with tr Continue show ?thesis by auto
    qed
  qed
qed

lemma sampling_loop_first_call:
  assumes "sampling_loop tools (api # apis) st = Some (Returns st2)"
  shows "\<exists>tr. trace st2 = trace st @ ModelCall (messages st) # tr"
proof (cases "iteration tools api st")
  case (Raises e)
  with assms show ?thesis by simp
next
  case (Returns s)
  then obtain tr where tr: "trace (state_of s) = trace st @ ModelCall (messages st) # tr"
    using iteration_trace by blast
  show ?thesis
  proof (cases s)
    case (Return st')
    with assms Returns tr show ?thesis by auto
  next
    case (Continue st')
    with assms Returns have "sampling_loop tools apis st' = Some (Returns st2)" by simp
    then obtain tr' where "trace st2 = trace st' @ tr'"
      using sampling_loop_trace_grows by blast
    with tr Continue show ?thesis by auto
  qed
qed

text \<open>
  Claim C2. In every iteration of the sampling loop: if the decomposed response holds no
  tool invocation, the loop returns in that iteration, whatever the service would answer
  later, and the log it returns is the log so far with the assistant message appended. If
  the response holds one invocation or more, the iteration does not return: the loop goes
  on from the folded state, having made one model call in this iteration; it cannot
  return before the service is called again, and whenever it returns its trace shows the
  next model call, on the folded log, with no other model call in between.
\<close>

theorem sampling_loop_tool_use_decides:
  "(tool_uses (response_to_params c) = [] \<longrightarrow>
      (\<exists>st'. sampling_loop tools (Parses c # apis) st = Some (Returns st') \<and>
             messages st' = messages st @
               [\<lparr>role = Assistant, message_content = Blocks (response_to_params c)\<rparr>] \<and>
             model_calls (trace st') = Suc (model_calls (trace st)))) \<and>
   (tool_uses (response_to_params c) \<noteq> [] \<longrightarrow>
      (\<exists>st1. iteration tools (Parses c) st = Returns (Continue st1) \<and>
             model_calls (trace st1) = Suc (model_calls (trace st)) \<and>
             sampling_loop tools (Parses c # apis) st = sampling_loop tools apis st1 \<and>
             sampling_loop tools [Parses c] st = None \<and>
             (\<forall>st2. sampling_loop tools (Parses c # apis) st = Some (Returns st2) \<longrightarrow>
                (\<exists>ev tr. trace st2 = trace st @ ModelCall (messages st) # ev @
                             ModelCall (messages st1) # tr \<and> model_calls ev = 0))))"
proof -
  obtain w' ev where ev: "model_calls ev = 0" and it:
    "iteration tools (Parses c) st =
       (if tool_uses (response_to_params c) = [] then
          Returns (Return \<lparr>messages = messages st @
                      [\<lparr>role = Assistant, message_content = Blocks (response_to_params c)\<rparr>],
                    world = w',
                    trace = trace st @ ModelCall (messages st) # ApiResponseCallback None # ev\<rparr>)
        else
          Returns (Continue \<lparr>messages = messages st @
                      [\<lparr>role = Assistant, message_content = Blocks (response_to_params c)\<rparr>,
                       \<lparr>role = User, message_content =
                          ToolResults (converted_results tools (response_to_params c) (world st))\<rparr>],
                    world = w',
                    trace = trace st @ ModelCall (messages st) # ApiResponseCallback None # ev\<rparr>))"
    using iteration_Parses [of tools c st] by blast
  show ?thesis
  proof (intro conjI impI)
    assume none: "tool_uses (response_to_params c) = []"
    show "\<exists>st'. sampling_loop tools (Parses c # apis) st = Some (Returns st') \<and>
             messages st' = messages st @
               [\<lparr>role = Assistant, message_content = Blocks (response_to_params c)\<rparr>] \<and>
             model_calls (trace st') = Suc (model_calls (trace st))"
      using it none ev by (simp add: model_calls_def)
  next
    assume some: "tool_uses (response_to_params c) \<noteq> []"
    define st1 where "st1 = \<lparr>messages = messages st @
                      [\<lparr>role = Assistant, message_content = Blocks (response_to_params c)\<rparr>,
                       \<lparr>role = User, message_content =
                          ToolResults (converted_results tools (response_to_params c) (world st))\<rparr>],
                    world = w',
                    trace = trace st @ ModelCall (messages st) # ApiResponseCallback None # ev\<rparr>"
    have it1: "iteration tools (Parses c) st = Returns (Continue st1)"
      using it some by (simp add: st1_def)
    have calls: "model_calls (trace st1) = Suc (model_calls (trace st))"
      using ev by (simp add: st1_def model_calls_def)
    have loop: "sampling_loop tools (Parses c # apis) st = sampling_loop tools apis st1"
      using it1 by simp
    have wait: "sampling_loop tools [Parses c] st = None"
      using it1 by simp
    have "\<exists>ev tr. trace st2 = trace st @ ModelCall (messages st) # ev @
                      ModelCall (messages st1) # tr \<and> model_calls ev = 0"
      if ret: "sampling_loop tools (Parses c # apis) st = Some (Returns st2)" for st2
    proof (cases apis)
      case Nil
      with ret loop show ?thesis by simp
    next
      case (Cons api apis')
      with ret loop have "sampling_loop tools (api # apis') st1 = Some (Returns st2)" by simp
      then obtain tr where "trace st2 = trace st1 @ ModelCall (messages st1) # tr"
        using sampling_loop_first_call by blast
      then have "trace st2 = trace st @ ModelCall (messages st) # (ApiResponseCallback None # ev) @
                      ModelCall (messages st1) # tr \<and> model_calls (ApiResponseCallback None # ev) = 0"
        using ev by (simp add: st1_def model_calls_def)
      then show ?thesis by blast
    qed
    with it1 calls loop wait
    show "\<exists>st1. iteration tools (Parses c) st = Returns (Continue st1) \<and>
             model_calls (trace st1) = Suc (model_calls (trace st)) \<and>
             sampling_loop tools (Parses c # apis) st = sampling_loop tools apis st1 \<and>
             sampling_loop tools [Parses c] st = None \<and>
             (\<forall>st2. sampling_loop tools (Parses c # apis) st = Some (Returns st2) \<longrightarrow>
                (\<exists>ev tr. trace st2 = trace st @ ModelCall (messages st) # ev @
                             ModelCall (messages st1) # tr \<and> model_calls ev = 0))"
      by blast
  qed
qed

theorem sampling_loop_tool_use_decides_witness:
  "(\<exists>st'. sampling_loop example_tools [Parses [BetaTextBlock ''done'']] example_state = Some (Returns st') \<and>
          messages st' = messages example_state @
            [\<lparr>role = Assistant, message_content = Blocks [TextParam ''done'']\<rparr>] \<and>
          model_calls (trace st') = 1) \<and>
   sampling_loop example_tools [Parses [BetaToolUseBlock ''id1'' ''computer'' 0]] example_state = None"
proof -
  have a: "tool_uses (response_to_params [BetaTextBlock ''done'' :: nat BetaContentBlock]) = []"
    by (simp add: response_to_params_def)
  have b: "tool_uses (response_to_params [BetaToolUseBlock ''id1'' ''computer'' (0::nat)]) \<noteq> []"
    by (simp add: response_to_params_def)
  have c: "model_calls (trace example_state) = 0"
    by (simp add: example_state_def model_calls_def)
  have d: "response_to_params [BetaTextBlock ''done'' :: nat BetaContentBlock] = [TextParam ''done'']"
    by (simp add: response_to_params_def)
  from sampling_loop_tool_use_decides [of "[BetaTextBlock ''done'']" example_tools "[]" example_state]
       sampling_loop_tool_use_decides [of "[BetaToolUseBlock ''id1'' ''computer'' 0]" example_tools "[]" example_state]
       a b c d
  show ?thesis by auto
qed

text \<open>
  Claim C3. When the call of the model service fails (in the request or in parsing the
  response), the loop calls the failure callback with the error and returns at once: the
  log is the log so far, nothing that the service would answer later is asked for, and
  the iteration has made one model call, not two.
\<close>

theorem sampling_loop_api_failure:
  "sampling_loop tools (CreateRaises e # apis) st =
     Some (Returns (st\<lparr>trace := trace st @
              [ModelCall (messages st), ApiResponseCallback (Some e)]\<rparr>)) \<and>
   sampling_loop tools (ParseRaises e # apis) st =
     Some (Returns (st\<lparr>trace := trace st @
              [ModelCall (messages st), ApiResponseCallback None,
               ApiResponseCallback (Some e)]\<rparr>)) \<and>
   model_calls (trace st @ [ModelCall (messages st), ApiResponseCallback (Some e)]) =
     Suc (model_calls (trace st)) \<and>
   model_calls (trace st @ [ModelCall (messages st), ApiResponseCallback None,
                            ApiResponseCallback (Some e)]) =
     Suc (model_calls (trace st))"
  by (simp add: iteration_def model_calls_def)

theorem sampling_loop_api_failure_witness:
  "sampling_loop example_tools
     [CreateRaises (APIStatusError ''overloaded''), Parses [BetaTextBlock ''never asked'']]
     example_state =
   Some (Returns
     \<lparr>messages = [\<lparr>role = User, message_content = Blocks [TextParam ''take a screenshot'']\<rparr>],
      world = 0,
      trace = [ModelCall [\<lparr>role = User,
                           message_content = Blocks [TextParam ''take a screenshot'']\<rparr>],
               ApiResponseCallback (Some (APIStatusError ''overloaded''))]\<rparr>)"
  using sampling_loop_api_failure [of example_tools "APIStatusError ''overloaded''"
      "[Parses [BetaTextBlock ''never asked'']]" example_state]
  by (simp add: example_state_def)

text \<open>
  Claim C4. For every response with one tool invocation or more, the iteration appends,
  after the assistant message, exactly one user message. Its content is the sequence of
  the converted results of the invocations: as many items as invocations, in the order
  of the invocations, each with the correlation id of its invocation.
\<close>

theorem tool_results_in_invocation_order:
  "tool_uses (response_to_params c) \<noteq> [] \<longrightarrow>
     (\<exists>st1. iteration tools (Parses c) st = Returns (Continue st1) \<and>
        messages st1 = messages st @
          [\<lparr>role = Assistant, message_content = Blocks (response_to_params c)\<rparr>,
           \<lparr>role = User, message_content =
              ToolResults (converted_results tools (response_to_params c) (world st))\<rparr>] \<and>
        length (converted_results tools (response_to_params c) (world st)) =
          length (tool_uses (response_to_params c)) \<and>
        map tool_use_id (converted_results tools (response_to_params c) (world st)) =
          map fst (tool_uses (response_to_params c)))"
proof
  assume some: "tool_uses (response_to_params c) \<noteq> []"
  obtain w' ev where
    "iteration tools (Parses c) st =
       (if tool_uses (response_to_params c) = [] then
          Returns (Return \<lparr>messages = messages st @
                      [\<lparr>role = Assistant, message_content = Blocks (response_to_params c)\<rparr>],
                    world = w',
                    trace = trace st @ ModelCall (messages st) # ApiResponseCallback None # ev\<rparr>)
        else
          Returns (Continue \<lparr>messages = messages st @
                      [\<lparr>role = Assistant, message_content = Blocks (response_to_params c)\<rparr>,
                       \<lparr>role = User, message_content =
                          ToolResults (converted_results tools (response_to_params c) (world st))\<rparr>],
                    world = w',
                    trace = trace st @ ModelCall (messages st) # ApiResponseCallback None # ev\<rparr>))"
    using iteration_Parses [of tools c st] by blast
  with some show "\<exists>st1. iteration tools (Parses c) st = Returns (Continue st1) \<and>
        messages st1 = messages st @
          [\<lparr>role = Assistant, message_content = Blocks (response_to_params c)\<rparr>,
           \<lparr>role = User, message_content =
              ToolResults (converted_results tools (response_to_params c) (world st))\<rparr>] \<and>
        length (converted_results tools (response_to_params c) (world st)) =
          length (tool_uses (response_to_params c)) \<and>
        map tool_use_id (converted_results tools (response_to_params c) (world st)) =
          map fst (tool_uses (response_to_params c))"
    by (simp add: length_converted_results map_tool_use_id_converted)
qed

theorem tool_results_in_invocation_order_witness:
  "\<exists>st1. iteration example_tools
      (Parses [BetaToolUseBlock ''id1'' ''command'' 7, BetaTextBlock ''and'',
               BetaToolUseBlock ''id2'' ''computer'' 8]) example_state = Returns (Continue st1) \<and>
     messages st1 =
       [\<lparr>role = User, message_content = Blocks [TextParam ''take a screenshot'']\<rparr>,
        \<lparr>role = Assistant, message_content =
           Blocks [ToolUseParam ''id1'' ''command'' 7, TextParam ''and'',
                   ToolUseParam ''id2'' ''computer'' 8]\<rparr>,
        \<lparr>role = User, message_content = ToolResults
           [\<lparr>content = ContentText ''Error executing tool command: boom'',
             tool_use_id = ''id1'', is_error = True\<rparr>,
            \<lparr>content = ContentBlocks
               [TextBlock ''Screenshot taken'',
                ImageBlock \<lparr>source_type = ''base64'', media_type = ''image/png'',
                            data = ''AAAA''\<rparr>],
             tool_use_id = ''id2'', is_error = False\<rparr>]\<rparr>]"
proof -
  have "tool_uses (response_to_params [BetaToolUseBlock ''id1'' ''command'' (7::nat),
          BetaTextBlock ''and'', BetaToolUseBlock ''id2'' ''computer'' 8]) \<noteq> []"
    by (simp add: response_to_params_def)
  with tool_results_in_invocation_order [of
      "[BetaToolUseBlock ''id1'' ''command'' 7, BetaTextBlock ''and'',
        BetaToolUseBlock ''id2'' ''computer'' 8]" example_tools example_state]
  show ?thesis
    by (simp add: response_to_params_def converted_results_def example_tools_def example_state_def
        run_def tool_map_def make_api_tool_result_def with_system_def)
qed

section \<open>Properties of the conversion\<close>

text \<open>
  Claim C5. For every tool result \<open>r\<close>, where a field counts as set (present) when it holds
  a string that is not empty, the test the code makes: if the error is set, the item's
  content is the one error text, with the system note in front when the note is present,
  and \<open>is_error\<close> is true. Otherwise the content is a list of blocks, a text block (the
  output, with the system note in front when present) when the output is set, then an
  image block when the image is set, and \<open>is_error\<close> is false. With neither output nor
  error nor image the item has the empty block list, its correlation id and \<open>is_error\<close>
  false.
\<close>

theorem make_api_tool_result_conversion:
  "(\<forall>e. error r = Some e \<and> e \<noteq> [] \<longrightarrow>
      make_api_tool_result r i =
        \<lparr>content = ContentText
           ((case system r of
               None \<Rightarrow> []
             | Some s \<Rightarrow> if s = [] then [] else ''<system>'' @ s @ ''</system>'' @ [CHR 0x0A]) @ e),
         tool_use_id = i, is_error = True\<rparr>) \<and>
   (\<not> truthy (error r) \<longrightarrow>
      make_api_tool_result r i =
        \<lparr>content = ContentBlocks
           ((case output r of
               None \<Rightarrow> []
             | Some out \<Rightarrow>
                 if out = [] then []
                 else [TextBlock
                   ((case system r of
                       None \<Rightarrow> []
                     | Some s \<Rightarrow>
                         if s = [] then [] else ''<system>'' @ s @ ''</system>'' @ [CHR 0x0A]) @
                    out)]) @
            (case base64_image r of
               None \<Rightarrow> []
             | Some img \<Rightarrow>
                 if img = [] then []
                 else [ImageBlock \<lparr>source_type = ''base64'', media_type = ''image/png'',
                                   data = img\<rparr>])),
         tool_use_id = i, is_error = False\<rparr>) \<and>
   (\<not> truthy (output r) \<and> \<not> truthy (error r) \<and> \<not> truthy (base64_image r) \<longrightarrow>
      make_api_tool_result r i =
        \<lparr>content = ContentBlocks [], tool_use_id = i, is_error = False\<rparr>)"
  by (auto simp: make_api_tool_result_def with_system_def truthy_def
           split: option.splits list.splits)

theorem make_api_tool_result_conversion_witness:
  "make_api_tool_result
     \<lparr>output = Some ''ignored'', error = Some ''failed'', base64_image = None,
      system = Some ''note''\<rparr> ''id1'' =
     \<lparr>content = ContentText ''<system>note</system>\<newline>failed'', tool_use_id = ''id1'',
      is_error = True\<rparr> \<and>
   make_api_tool_result
     \<lparr>output = Some ''done'', error = None, base64_image = Some ''AAAA'',
      system = Some ''note''\<rparr> ''id2'' =
     \<lparr>content = ContentBlocks
        [TextBlock ''<system>note</system>\<newline>done'',
         ImageBlock \<lparr>source_type = ''base64'', media_type = ''image/png'', data = ''AAAA''\<rparr>],
      tool_use_id = ''id2'', is_error = False\<rparr> \<and>
   make_api_tool_result
     \<lparr>output = None, error = None, base64_image = None, system = Some ''note''\<rparr> ''id3'' =
     \<lparr>content = ContentBlocks [], tool_use_id = ''id3'', is_error = False\<rparr>"
  using
    make_api_tool_result_conversion [of
      "\<lparr>output = Some ''ignored'', error = Some ''failed'', base64_image = None,
        system = Some ''note''\<rparr>" "''id1''"]
    make_api_tool_result_conversion [of
      "\<lparr>output = Some ''done'', error = None, base64_image = Some ''AAAA'',
        system = Some ''note''\<rparr>" "''id2''"]
    make_api_tool_result_conversion [of
      "\<lparr>output = None, error = None, base64_image = None, system = Some ''note''\<rparr>" "''id3''"]
  by (simp add: truthy_def)

section \<open>Properties of the command tool\<close>







section \<open>Properties of the file tool\<close>

subsection \<open>Splitting and joining lines\<close>

lemma py_split_not_Nil: "py_split sep s \<noteq> []"
  by (induction s) (auto split: list.split)

lemma py_split_no_sep: "l \<in> set (py_split sep s) \<Longrightarrow> sep \<notin> set l"
proof (induction s arbitrary: l)
  case Nil
  then show ?case by simp
next
  case (Cons c s)
  show ?case
  proof (cases "c = sep")
    case True
    with Cons show ?thesis by auto
  next
    case False
    obtain piece pieces where ps: "py_split sep s = piece # pieces"
      using py_split_not_Nil [of sep s] by (cases "py_split sep s") auto
    with Cons.prems False have "l = c # piece \<or> l \<in> set pieces" by simp
    then show ?thesis
    proof
      assume "l = c # piece"
      moreover have "sep \<notin> set piece" using Cons.IH [of piece] ps by simp
      ultimately show ?thesis using False by simp
    next
      assume "l \<in> set pieces"
      then show ?thesis using Cons.IH [of l] ps by simp
    qed
  qed
qed

lemma py_split_no_sep_string: "sep \<notin> set l \<Longrightarrow> py_split sep l = [l]"
  by (induction l) auto

lemma py_split_append_sep:
  "sep \<notin> set l \<Longrightarrow> py_split sep (l @ sep # s) = l # py_split sep s"
  by (induction l) auto

lemma py_split_join:
  "ls \<noteq> [] \<Longrightarrow> \<forall>l \<in> set ls. sep \<notin> set l \<Longrightarrow> py_split sep (py_join [sep] ls) = ls"
proof (induction ls)
  case Nil
  then show ?case by simp
next
  case (Cons x ls)
  show ?case
  proof (cases ls)
    case Nil
    with Cons.prems show ?thesis by (simp add: py_split_no_sep_string)
  next
    case (Cons y ys)
    with Cons.prems Cons.IH have "py_split sep (py_join [sep] (y # ys)) = y # ys" by simp
    with Cons Cons.prems show ?thesis by (simp add: py_split_append_sep)
  qed
qed

lemma numbered_lines:
  "map f (py_enumerate ls) = map (\<lambda>k. f (int k, ls ! k)) [0..<length ls]"
  by (rule nth_equalityI) (simp_all add: py_enumerate_def)

subsection \<open>Viewing a range of lines\<close>

text \<open>
  Claim C10. For every view of a file with a line range that passes the checks, the
  output is the header and then the selected lines, each with a number in front; the
  \<open>k\<close>-th selected line (counting from 0), which is line \<open>start + k\<close> of the file, carries
  the number \<open>k + 1\<close>. At least one line is shown, and the numbers shown are the lines'
  numbers in the file exactly when \<open>start = 1\<close>. The file's content is the text that
  \<^verbatim>\<open>read_text\<close> gives.
\<close>

theorem view_range_numbers_from_one:
  assumes isfile: "read_text pf (files st) p = Returns file_content"
    and range: "1 \<le> start" "start \<le> int (length (py_split CHR 0x0A file_content))"
      "end = - 1 \<or> (start \<le> end \<and> end \<le> int (length (py_split CHR 0x0A file_content)))"
  shows "view pf st p (Some [start, end]) =
     output_result (''Contents of '' @ path_str pf p @ [CHR 0x3A, CHR 0x0A] @
       concat (map (\<lambda>k. format_6 (int k + 1) @ [CHR 0x09] @
                        py_split CHR 0x0A file_content ! (nat (start - 1) + k) @ [CHR 0x0A])
                   [0..<shown_lines (py_split CHR 0x0A file_content) start end])) \<and>
    0 < shown_lines (py_split CHR 0x0A file_content) start end \<and>
    ((\<forall>k < shown_lines (py_split CHR 0x0A file_content) start end.
         int k + 1 = int (nat (start - 1) + k) + 1) \<longleftrightarrow> start = 1)"
proof -
  define lines where "lines = py_split CHR 0x0A file_content"
  define sel where "sel = (if end = - 1 then drop (nat (start - 1)) lines
                           else slice lines (nat (start - 1)) (nat end))"
  have len: "length sel = shown_lines lines start end"
    using range by (auto simp: sel_def shown_lines_def slice_def lines_def)
  have pos: "0 < shown_lines lines start end"
    using range by (auto simp: shown_lines_def lines_def)
  have nth: "sel ! k = lines ! (nat (start - 1) + k)" if "k < length sel" for k
    using that range by (auto simp: sel_def slice_def lines_def)
  have "set sel \<subseteq> set lines"
    by (auto simp: sel_def slice_def dest: in_set_dropD in_set_takeD)
  then have nosep: "\<forall>l \<in> set sel. CHR 0x0A \<notin> set l"
    using py_split_no_sep [of _ "CHR 0x0A" file_content] by (auto simp: lines_def)
  have "sel \<noteq> []" using len pos by auto
  then have split: "py_split CHR 0x0A (py_join [CHR 0x0A] sel) = sel"
    using nosep by (rule py_split_join)
  have num: "numbered_content (py_join [CHR 0x0A] sel) =
      concat (map (\<lambda>k. format_6 (int k + 1) @ [CHR 0x09] @ lines ! (nat (start - 1) + k) @ [CHR 0x0A])
                  [0..<shown_lines lines start end])"
    unfolding numbered_content_def split numbered_lines len [symmetric]
    by (rule arg_cong [where f = concat]) (simp add: nth)
  have notdir: "\<not> is_dir (files st) p" "path_exists (files st) p"
    using isfile
    by (auto simp: is_dir_def path_exists_def read_text_def split: option.splits node.splits)
  have "view pf st p (Some [start, end]) =
     output_result (''Contents of '' @ path_str pf p @ [CHR 0x3A, CHR 0x0A] @
       numbered_content (py_join [CHR 0x0A] sel))"
    using range notdir isfile by (auto simp: view_def Let_def sel_def lines_def)
  with num have shown: "view pf st p (Some [start, end]) =
     output_result (''Contents of '' @ path_str pf p @ [CHR 0x3A, CHR 0x0A] @
       concat (map (\<lambda>k. format_6 (int k + 1) @ [CHR 0x09] @
                        py_split CHR 0x0A file_content ! (nat (start - 1) + k) @ [CHR 0x0A])
                   [0..<shown_lines (py_split CHR 0x0A file_content) start end]))"
    by (simp add: lines_def)
  have pos': "0 < shown_lines (py_split CHR 0x0A file_content) start end"
    using pos by (simp add: lines_def)
  then have "(\<forall>k < shown_lines (py_split CHR 0x0A file_content) start end.
            int k + 1 = int (nat (start - 1) + k) + 1) \<longleftrightarrow> start = 1"
    using range by auto
  with shown pos' show ?thesis by blast
qed

theorem view_range_numbers_from_one_witness:
  "view windows_platform
     (example_files (''l1'' @ [CHR 0x0D, CHR 0x0A] @ ''l2'' @ [CHR 0x0D, CHR 0x0A] @ ''l3'' @
        [CHR 0x0D, CHR 0x0A] @ ''l4'' @ [CHR 0x0D, CHR 0x0A] @ ''l5'' @ [CHR 0x0D, CHR 0x0A] @
        ''l6'' @ [CHR 0x0D, CHR 0x0A] @ ''l7'' @ [CHR 0x0D, CHR 0x0A] @ ''l8''))
     example_path (Some [5, 7]) =
     output_result (''Contents of C:'' @ [CHR 0x5C] @ ''f.txt:'' @ [CHR 0x0A] @
       ''     1'' @ [CHR 0x09] @ ''l5'' @ [CHR 0x0A] @
       ''     2'' @ [CHR 0x09] @ ''l6'' @ [CHR 0x0A] @
       ''     3'' @ [CHR 0x09] @ ''l7'' @ [CHR 0x0A])"
proof -
  let ?b = "''l1'' @ [CHR 0x0D, CHR 0x0A] @ ''l2'' @ [CHR 0x0D, CHR 0x0A] @ ''l3'' @
        [CHR 0x0D, CHR 0x0A] @ ''l4'' @ [CHR 0x0D, CHR 0x0A] @ ''l5'' @ [CHR 0x0D, CHR 0x0A] @
        ''l6'' @ [CHR 0x0D, CHR 0x0A] @ ''l7'' @ [CHR 0x0D, CHR 0x0A] @ ''l8''"
  let ?c = "''l1\<newline>l2\<newline>l3\<newline>l4\<newline>l5\<newline>l6\<newline>l7\<newline>l8''"
  have lines: "py_split CHR 0x0A ?c = [''l1'', ''l2'', ''l3'', ''l4'', ''l5'', ''l6'', ''l7'', ''l8'']"
    by simp
  have a: "read_text windows_platform (files (example_files ?b)) example_path = Returns ?c"
    by (simp add: read_text_def example_files_def example_path_def windows_platform_def
        decode_utf8_def)
  have b: "(1::int) \<le> 5" "5 \<le> int (length (py_split CHR 0x0A ?c))"
    "(7::int) = - 1 \<or> ((5::int) \<le> 7 \<and> 7 \<le> int (length (py_split CHR 0x0A ?c)))"
    by (simp_all add: lines)
  have n: "shown_lines [''l1'', ''l2'', ''l3'', ''l4'', ''l5'', ''l6'', ''l7'', ''l8''] 5 7 = 3"
    by (simp add: shown_lines_def)
  have u: "[0..<3] = [0, 1, 2]"
    by (simp add: upt_rec)
  have f: "format_6 1 = ''     1''" "format_6 2 = ''     2''" "format_6 3 = ''     3''"
    by (simp_all add: format_6_def py_str_def eval_nat_numeral)
  from view_range_numbers_from_one [OF a b]
  show ?thesis
    by (simp add: lines n u f example_path_def path_str_def windows_platform_def)
qed

subsection \<open>Reading back what was written\<close>






lemma write_text_file:
  "map_of fs p = Some (File old) \<Longrightarrow>
   write_text pf fs p s =
     (case encode_file pf (write_newlines (os_linesep pf) s) of
        Raises e \<Rightarrow> (Raises e, AList.update p (File []) fs)
      | Returns bytes \<Rightarrow> (Returns (), AList.update p (File bytes) fs))"
  by (simp add: write_text_def)


subsection \<open>Editing and undoing\<close>












subsection \<open>Replacing a string that occurs more than once\<close>

text \<open>
  Claim C6. The first half holds (\<open>str_replace_once\<close>, \<open>str_replace_unless_once\<close>): the
  file is written when \<^verbatim>\<open>count\<close> finds the old string once, and otherwise nothing is
  written and the result is an error. The second half fails on the code for an old string
  that spans lines. In the file with the four lines \<open>a\<close>, \<open>b\<close>, \<open>a\<close>, \<open>b\<close> the old string
  "\<open>a\<close>, newline, \<open>b\<close>" occurs twice, at lines 1 and 3, and the message lists no line at
  all: the code looks for the old string inside each single line.
\<close>

theorem str_replace_lists_no_line_for_multiline_old_str:
  "py_count ''a\<newline>b\<newline>a\<newline>b'' ''a\<newline>b'' = 2 \<and>
   str_replace windows_platform (example_files ''a\<newline>b\<newline>a\<newline>b'') example_path
     ''a\<newline>b'' ''c'' =
     (error_result (''Multiple occurrences of old_str `a\<newline>b` in lines []. Please ensure it is unique.''),
      example_files ''a\<newline>b\<newline>a\<newline>b'')"
  by (simp add: str_replace_def example_files_def example_path_def path_exists_def is_dir_def
      read_text_def windows_platform_def decode_utf8_def py_count_def occurrence_lines_def
      py_enumerate_def py_str_list_def Let_def upt_rec)

end
